theory Spec2Isabelle
  imports Main "HOL-Library.AList"
begin

section \<open>GraphQL types of the promotion discount domain\<close>

text \<open>
  A shallow embedding of \<^verbatim>\<open>saleor/graphql/discount/types/promotions.py\<close>: the
  object types of promotions, promotion rules and promotion events, their resolvers,
  the table from event kinds to event variants and the union built on it.
  Resolvers that call a data loader or the ownership check are modelled with the list
  of collaborator calls they make, so that "no loader is invoked" is a statement about
  a value.
\<close>

subsection \<open>Values\<close>

text \<open>
  The \<^verbatim>\<open>parameters\<close> column of an event is a JSON document; Python's
  \<^verbatim>\<open>None\<close> is JSON's null.
\<close>

datatype json =
    JNull
  | JBool bool
  | JInt int
  | JStr string
  | JList "json list"
  | JObj "(string \<times> json) list"

datatype permission =
    MANAGE_STAFF
  | MANAGE_APPS
  | MANAGE_DISCOUNTS
  | AUTHENTICATED_APP
  | AUTHENTICATED_STAFF_USER

record user =
  user_pk :: int
  is_staff :: bool
  user_permissions :: "permission list"

record app =
  app_pk :: int
  app_permissions :: "permission list"

text \<open>\<^verbatim>\<open>UserOrApp\<close>: the requester of a request and the principal of an event.\<close>

datatype principal = User user | App app

datatype channel = Channel int

record promotion =
  promotion_pk :: int
  promotion_name :: string

record promotion_rule =
  rule_pk :: int
  rule_name :: "string option"
  promotion_id :: int

text \<open>
  \<^verbatim>\<open>models.PromotionEvent\<close>: \<^verbatim>\<open>type\<close> is the event kind, \<^verbatim>\<open>user_id\<close> and
  \<^verbatim>\<open>app_id\<close> are nullable integer foreign keys, \<^verbatim>\<open>parameters\<close> is a JSON object.
\<close>

record promotion_event =
  event_pk :: int
  event_type :: string
  user_id :: "int option"
  app_id :: "int option"
  parameters :: "string \<rightharpoonup> json"

text \<open>
  \<^verbatim>\<open>info.context\<close>: the request. It carries the requester and, behind the data
  loaders, the rows of the database; the loaders themselves are not part of this file
  and are taken as the functions they compute.
\<close>

record request_context =
  requester :: "principal option"
  users_by_id :: "int \<Rightarrow> user option"
  apps_by_id :: "int \<Rightarrow> app option"
  promotions_by_id :: "int \<Rightarrow> promotion option"
  rules_by_promotion_id :: "int \<Rightarrow> promotion_rule list"
  events_by_promotion_id :: "int \<Rightarrow> promotion_event list"
  channels_by_rule_id :: "int \<Rightarrow> channel list"

subsection \<open>Collaborator calls and deferred results\<close>

datatype error = PermissionDenied

datatype call =
    UserByUserIdLoader int
  | AppByIdLoader int
  | PromotionByIdLoader int
  | PromotionRulesByPromotionIdLoader int
  | PromotionEventsByPromotionIdLoader int
  | ChannelsByPromotionRuleIdLoader int
  | CheckOwnerOrPerms principal "principal option" "permission list"

text \<open>
  A resolution takes the calls made so far and gives its outcome (a raised error or a
  value) with the calls extended. \<open>promise_then\<close> is \<^verbatim>\<open>.then(callback)\<close>: the
  callback runs on the value once it is there, and an error passes through.
\<close>

type_synonym 'a resolution = "call list \<Rightarrow> (error + 'a) \<times> call list"

definition returns :: "'a \<Rightarrow> 'a resolution" where
  "returns v = (\<lambda>calls. (Inr v, calls))"

definition raises :: "error \<Rightarrow> 'a resolution" where
  "raises e = (\<lambda>calls. (Inl e, calls))"

definition invoke :: "call \<Rightarrow> unit resolution" where
  "invoke c = (\<lambda>calls. (Inr (), calls @ [c]))"

definition promise_then :: "'a resolution \<Rightarrow> ('a \<Rightarrow> 'b resolution) \<Rightarrow> 'b resolution" where
  "promise_then p callback =
     (\<lambda>calls. case p calls of
        (Inl e, calls') \<Rightarrow> (Inl e, calls')
      | (Inr v, calls') \<Rightarrow> callback v calls')"

definition run :: "'a resolution \<Rightarrow> (error + 'a) \<times> call list" where
  "run p = p []"

definition outcome :: "'a resolution \<Rightarrow> error + 'a" where
  "outcome p = fst (run p)"

definition calls_made :: "'a resolution \<Rightarrow> call list" where
  "calls_made p = snd (run p)"

text \<open>\<^verbatim>\<open>Loader(info.context).load(key)\<close>, one definition per loader the file imports.\<close>

definition UserByUserIdLoader_load :: "request_context \<Rightarrow> int \<Rightarrow> user option resolution" where
  "UserByUserIdLoader_load ctx key =
     promise_then (invoke (UserByUserIdLoader key)) (\<lambda>_. returns (users_by_id ctx key))"

definition AppByIdLoader_load :: "request_context \<Rightarrow> int \<Rightarrow> app option resolution" where
  "AppByIdLoader_load ctx key =
     promise_then (invoke (AppByIdLoader key)) (\<lambda>_. returns (apps_by_id ctx key))"

definition PromotionByIdLoader_load :: "request_context \<Rightarrow> int \<Rightarrow> promotion option resolution" where
  "PromotionByIdLoader_load ctx key =
     promise_then (invoke (PromotionByIdLoader key)) (\<lambda>_. returns (promotions_by_id ctx key))"

definition PromotionRulesByPromotionIdLoader_load ::
  "request_context \<Rightarrow> int \<Rightarrow> promotion_rule list resolution" where
  "PromotionRulesByPromotionIdLoader_load ctx key =
     promise_then (invoke (PromotionRulesByPromotionIdLoader key))
       (\<lambda>_. returns (rules_by_promotion_id ctx key))"

definition PromotionEventsByPromotionIdLoader_load ::
  "request_context \<Rightarrow> int \<Rightarrow> promotion_event list resolution" where
  "PromotionEventsByPromotionIdLoader_load ctx key =
     promise_then (invoke (PromotionEventsByPromotionIdLoader key))
       (\<lambda>_. returns (events_by_promotion_id ctx key))"

definition ChannelsByPromotionRuleIdLoader_load ::
  "request_context \<Rightarrow> int \<Rightarrow> channel list resolution" where
  "ChannelsByPromotionRuleIdLoader_load ctx key =
     promise_then (invoke (ChannelsByPromotionRuleIdLoader key))
       (\<lambda>_. returns (channels_by_rule_id ctx key))"

subsection \<open>Helpers imported from the rest of the application\<close>

text \<open>
  Modelled from the spec: \<^verbatim>\<open>get_user_or_app_from_context\<close> (in \<^verbatim>\<open>graphql/utils\<close>)
  is missing; the spec calls it the "current requester" accessor of the request
  context.
\<close>

definition get_user_or_app_from_context :: "request_context \<Rightarrow> principal option" where
  "get_user_or_app_from_context ctx = requester ctx"

text \<open>The permissions a principal holds.\<close>

fun has_perm :: "principal \<Rightarrow> permission \<Rightarrow> bool" where
  "has_perm (User u) p = (p \<in> set (user_permissions u))"
| "has_perm (App a) p = (p \<in> set (app_permissions a))"

text \<open>
  Modelled from the spec: \<^verbatim>\<open>check_is_owner_or_has_one_of_perms\<close> (in
  \<^verbatim>\<open>graphql/account/utils\<close>) is missing; the spec gives it as
  \<^verbatim>\<open>check_is_owner_or_has_one_of_perms(requester, subject, permission_set) -> void | raises\<close>,
  passing for a requester who is the subject itself or holds one of the permissions and
  raising an authorization failure otherwise.
\<close>

text \<open>
  The requester is the subject itself when both are rows of the same table with the same
  primary key; no subject (the loader found no row) is nobody's.
\<close>

fun is_owner :: "principal \<Rightarrow> principal option \<Rightarrow> bool" where
  "is_owner (User u) (Some (User v)) = (user_pk u = user_pk v)"
| "is_owner (App a) (Some (App b)) = (app_pk a = app_pk b)"
| "is_owner _ _ = False"

definition is_owner_or_has_one_of_perms ::
  "principal \<Rightarrow> principal option \<Rightarrow> permission list \<Rightarrow> bool" where
  "is_owner_or_has_one_of_perms req owner perms =
     (is_owner req owner \<or> list_ex (has_perm req) perms)"

definition check_is_owner_or_has_one_of_perms ::
  "principal \<Rightarrow> principal option \<Rightarrow> permission list \<Rightarrow> unit resolution" where
  "check_is_owner_or_has_one_of_perms req owner perms =
     promise_then (invoke (CheckOwnerOrPerms req owner perms))
       (\<lambda>_. if is_owner_or_has_one_of_perms req owner perms then returns ()
            else raises PermissionDenied)"

text \<open>
  Modelled from the spec: \<^verbatim>\<open>PermissionsField\<close> (in \<^verbatim>\<open>graphql/core/fields\<close>) and
  \<^verbatim>\<open>AuthorizationFilters\<close> are missing. The spec: the declared permission
  requirements of a field are enforced before its resolver runs; the two filters stand
  for the caller classes "authenticated app" and "authenticated staff user"; a caller
  meeting none of the requirements receives a denial.
\<close>

fun meets :: "principal option \<Rightarrow> permission \<Rightarrow> bool" where
  "meets None p = False"
| "meets (Some (App a)) AUTHENTICATED_APP = True"
| "meets (Some (User u)) AUTHENTICATED_APP = False"
| "meets (Some (User u)) AUTHENTICATED_STAFF_USER = is_staff u"
| "meets (Some (App a)) AUTHENTICATED_STAFF_USER = False"
| "meets (Some r) p = has_perm r p"

definition PermissionsField ::
  "permission list \<Rightarrow> ('r \<Rightarrow> request_context \<Rightarrow> 'a resolution) \<Rightarrow> 'r \<Rightarrow> request_context \<Rightarrow> 'a resolution" where
  "PermissionsField permissions resolver root ctx =
     (if list_ex (meets (get_user_or_app_from_context ctx)) permissions
      then resolver root ctx
      else raises PermissionDenied)"

text \<open>Python's truth test on a nullable integer key: the key when it is truthy.\<close>

fun truthy_key :: "int option \<Rightarrow> int option" where
  "truthy_key None = None"
| "truthy_key (Some k) = (if k = 0 then None else Some k)"

text \<open>
  A \<^verbatim>\<open>dict\<close> display inserts its items in order, a later item with a key already
  there replacing the value in place; \<^verbatim>\<open>d.get(k)\<close> and \<^verbatim>\<open>d.values()\<close>.
\<close>

definition dict_display :: "('k \<times> 'v) list \<Rightarrow> ('k \<times> 'v) list" where
  "dict_display items = foldl (\<lambda>d (k, v). AList.update k v d) [] items"

definition dict_get :: "('k \<times> 'v) list \<Rightarrow> 'k \<Rightarrow> 'v option" where
  "dict_get d k = map_of d k"

definition dict_values :: "('k \<times> 'v) list \<Rightarrow> 'v list" where
  "dict_values d = map snd d"

subsection \<open>Promotion and PromotionRule\<close>

definition Promotion_resolve_rules :: "promotion \<Rightarrow> request_context \<Rightarrow> promotion_rule list resolution" where
  "Promotion_resolve_rules root ctx = PromotionRulesByPromotionIdLoader_load ctx (promotion_pk root)"

definition Promotion_resolve_events :: "promotion \<Rightarrow> request_context \<Rightarrow> promotion_event list resolution" where
  "Promotion_resolve_events root ctx = PromotionEventsByPromotionIdLoader_load ctx (promotion_pk root)"

definition PromotionRule_resolve_promotion ::
  "promotion_rule \<Rightarrow> request_context \<Rightarrow> promotion option resolution" where
  "PromotionRule_resolve_promotion root ctx = PromotionByIdLoader_load ctx (promotion_id root)"

definition PromotionRule_resolve_channels ::
  "promotion_rule \<Rightarrow> request_context \<Rightarrow> channel list resolution" where
  "PromotionRule_resolve_channels root ctx = ChannelsByPromotionRuleIdLoader_load ctx (rule_pk root)"

text \<open>The \<^verbatim>\<open>permissions\<close> argument of the \<^verbatim>\<open>channels\<close> field, and the field.\<close>

definition PromotionRule_channels_permissions :: "permission list" where
  "PromotionRule_channels_permissions = [AUTHENTICATED_APP, AUTHENTICATED_STAFF_USER]"

definition PromotionRule_channels :: "promotion_rule \<Rightarrow> request_context \<Rightarrow> channel list resolution" where
  "PromotionRule_channels =
     PermissionsField PromotionRule_channels_permissions PromotionRule_resolve_channels"

subsection \<open>Promotion events\<close>

datatype interface = Node | ObjectWithMetadata | PromotionEvent | PromotionRuleEvent

datatype event_variant =
    PromotionCreatedEvent
  | PromotionUpdatedEvent
  | PromotionStartedEvent
  | PromotionEndedEvent
  | PromotionRuleCreatedEvent
  | PromotionRuleUpdatedEvent
  | PromotionRuleDeletedEvent

text \<open>\<^verbatim>\<open>Meta.interfaces\<close> of each variant.\<close>

fun interfaces :: "event_variant \<Rightarrow> interface list" where
  "interfaces PromotionCreatedEvent = [Node, PromotionEvent]"
| "interfaces PromotionUpdatedEvent = [Node, PromotionEvent]"
| "interfaces PromotionStartedEvent = [Node, PromotionEvent]"
| "interfaces PromotionEndedEvent = [Node, PromotionEvent]"
| "interfaces PromotionRuleCreatedEvent = [Node, PromotionEvent, PromotionRuleEvent]"
| "interfaces PromotionRuleUpdatedEvent = [Node, PromotionEvent, PromotionRuleEvent]"
| "interfaces PromotionRuleDeletedEvent = [Node, PromotionEvent, PromotionRuleEvent]"

text \<open>
  Modelled from the spec: the constants of \<^verbatim>\<open>discount.PromotionEvents\<close> are missing;
  the spec names the seven kinds promotion_created, promotion_updated,
  promotion_started, promotion_ended, rule_created, rule_updated and rule_deleted.
\<close>

definition PROMOTION_CREATED :: string where "PROMOTION_CREATED = ''promotion_created''"
definition PROMOTION_UPDATED :: string where "PROMOTION_UPDATED = ''promotion_updated''"
definition PROMOTION_STARTED :: string where "PROMOTION_STARTED = ''promotion_started''"
definition PROMOTION_ENDED :: string where "PROMOTION_ENDED = ''promotion_ended''"
definition RULE_CREATED :: string where "RULE_CREATED = ''rule_created''"
definition RULE_UPDATED :: string where "RULE_UPDATED = ''rule_updated''"
definition RULE_DELETED :: string where "RULE_DELETED = ''rule_deleted''"

definition PROMOTION_EVENT_MAP :: "(string \<times> event_variant) list" where
  "PROMOTION_EVENT_MAP = dict_display
     [(PROMOTION_CREATED, PromotionCreatedEvent),
      (PROMOTION_UPDATED, PromotionUpdatedEvent),
      (PROMOTION_STARTED, PromotionStartedEvent),
      (PROMOTION_ENDED, PromotionEndedEvent),
      (RULE_CREATED, PromotionRuleCreatedEvent),
      (RULE_UPDATED, PromotionRuleUpdatedEvent),
      (RULE_DELETED, PromotionRuleDeletedEvent)]"

definition resolve_event_type :: "promotion_event \<Rightarrow> request_context \<Rightarrow> string" where
  "resolve_event_type root info = event_type root"

definition PromotionEvent_resolve_type :: "promotion_event \<Rightarrow> request_context \<Rightarrow> event_variant option" where
  "PromotionEvent_resolve_type instance info = dict_get PROMOTION_EVENT_MAP (event_type instance)"

definition UnionPromotionEvent_types :: "event_variant list" where
  "UnionPromotionEvent_types = dict_values PROMOTION_EVENT_MAP"

definition UnionPromotionEvent_resolve_type ::
  "promotion_event \<Rightarrow> request_context \<Rightarrow> event_variant option" where
  "UnionPromotionEvent_resolve_type instance info = dict_get PROMOTION_EVENT_MAP (event_type instance)"

text \<open>
  \<^verbatim>\<open>PromotionEvent.resolve_created_by\<close>, with its two local callbacks. The tests
  \<^verbatim>\<open>if root.user_id\<close> and \<^verbatim>\<open>if root.app_id\<close> are Python truth tests.
\<close>

definition resolve_user :: "principal \<Rightarrow> user option \<Rightarrow> principal option resolution" where
  "resolve_user req user =
     promise_then (check_is_owner_or_has_one_of_perms req (map_option User user) [MANAGE_STAFF])
       (\<lambda>_. returns (map_option User user))"

definition resolve_app :: "principal \<Rightarrow> app option \<Rightarrow> principal option resolution" where
  "resolve_app req app =
     promise_then (check_is_owner_or_has_one_of_perms req (map_option App app) [MANAGE_APPS])
       (\<lambda>_. returns (map_option App app))"

definition resolve_created_by :: "promotion_event \<Rightarrow> request_context \<Rightarrow> principal option resolution" where
  "resolve_created_by root ctx =
     (case get_user_or_app_from_context ctx of
        None \<Rightarrow> returns None
      | Some req \<Rightarrow>
          (case truthy_key (user_id root) of
             Some uid \<Rightarrow> promise_then (UserByUserIdLoader_load ctx uid) (resolve_user req)
           | None \<Rightarrow>
               (case truthy_key (app_id root) of
                  Some aid \<Rightarrow> promise_then (AppByIdLoader_load ctx aid) (resolve_app req)
                | None \<Rightarrow> returns None)))"

text \<open>
  The \<^verbatim>\<open>permissions\<close> argument of the \<^verbatim>\<open>created_by\<close> field of the interface,
  and the field: \<^verbatim>\<open>resolve_created_by\<close> behind the gate of its
  \<^verbatim>\<open>PermissionsField\<close>.
\<close>

definition PromotionEvent_created_by_permissions :: "permission list" where
  "PromotionEvent_created_by_permissions = [MANAGE_STAFF, MANAGE_APPS]"

definition PromotionEvent_created_by ::
  "promotion_event \<Rightarrow> request_context \<Rightarrow> principal option resolution" where
  "PromotionEvent_created_by =
     PermissionsField PromotionEvent_created_by_permissions resolve_created_by"

text \<open>\<^verbatim>\<open>PromotionRuleEvent.resolve_rule_id\<close>: \<^verbatim>\<open>root.parameters.get("rule_id", None)\<close>.\<close>

definition resolve_rule_id :: "promotion_event \<Rightarrow> request_context \<Rightarrow> json" where
  "resolve_rule_id root info =
     (case parameters root ''rule_id'' of None \<Rightarrow> JNull | Some v \<Rightarrow> v)"

subsection \<open>Example data\<close>

text \<open>
  Three users (a customer, a staff member managing staff, a staff member managing
  discounts), an app, and a request over a small database, parameterised by its
  requester.
\<close>

definition alice :: user where
  "alice = \<lparr>user_pk = 1, is_staff = False, user_permissions = []\<rparr>"

definition bob :: user where
  "bob = \<lparr>user_pk = 2, is_staff = True, user_permissions = [MANAGE_STAFF]\<rparr>"

definition carol :: user where
  "carol = \<lparr>user_pk = 3, is_staff = True, user_permissions = [MANAGE_DISCOUNTS]\<rparr>"

definition dashboard_app :: app where
  "dashboard_app = \<lparr>app_pk = 7, app_permissions = [MANAGE_APPS]\<rparr>"

definition summer_sale :: promotion where
  "summer_sale = \<lparr>promotion_pk = 10, promotion_name = ''Summer sale''\<rparr>"

definition rule_a :: promotion_rule where
  "rule_a = \<lparr>rule_pk = 21, rule_name = Some ''Shoes'', promotion_id = 10\<rparr>"

definition rule_b :: promotion_rule where
  "rule_b = \<lparr>rule_pk = 20, rule_name = None, promotion_id = 10\<rparr>"

definition event_by :: "int option \<Rightarrow> int option \<Rightarrow> promotion_event" where
  "event_by uid aid =
     \<lparr>event_pk = 30, event_type = ''rule_created'', user_id = uid, app_id = aid,
      parameters = [''rule_id'' \<mapsto> JStr ''UHJvbW90aW9uUnVsZToyMQ=='']\<rparr>"

definition request_of :: "principal option \<Rightarrow> request_context" where
  "request_of req =
     \<lparr>requester = req,
      users_by_id = (\<lambda>k. if k = 1 then Some alice else if k = 2 then Some bob
                          else if k = 3 then Some carol else None),
      apps_by_id = (\<lambda>k. if k = 7 then Some dashboard_app else None),
      promotions_by_id = (\<lambda>k. if k = 10 then Some summer_sale else None),
      rules_by_promotion_id = (\<lambda>k. if k = 10 then [rule_a, rule_b] else []),
      events_by_promotion_id =
        (\<lambda>k. if k = 10 then [event_by (Some 2) None, event_by None (Some 7), event_by None None]
             else []),
      channels_by_rule_id = (\<lambda>k. if k = 21 then [Channel 2, Channel 1] else [])\<rparr>"




section \<open>Properties\<close>

subsection \<open>Auxiliary facts\<close>

lemmas kind_defs =
  PROMOTION_CREATED_def PROMOTION_UPDATED_def PROMOTION_STARTED_def PROMOTION_ENDED_def
  RULE_CREATED_def RULE_UPDATED_def RULE_DELETED_def

lemmas resolution_defs =
  returns_def raises_def invoke_def promise_then_def run_def outcome_def calls_made_def

text \<open>The display of \<open>PROMOTION_EVENT_MAP\<close> has no repeated key: all seven items stay.\<close>

lemma PROMOTION_EVENT_MAP_items:
  "PROMOTION_EVENT_MAP =
     [(PROMOTION_CREATED, PromotionCreatedEvent),
      (PROMOTION_UPDATED, PromotionUpdatedEvent),
      (PROMOTION_STARTED, PromotionStartedEvent),
      (PROMOTION_ENDED, PromotionEndedEvent),
      (RULE_CREATED, PromotionRuleCreatedEvent),
      (RULE_UPDATED, PromotionRuleUpdatedEvent),
      (RULE_DELETED, PromotionRuleDeletedEvent)]"
  by (simp add: PROMOTION_EVENT_MAP_def dict_display_def kind_defs)

lemma values_distinct: "distinct (dict_values PROMOTION_EVENT_MAP)"
  by (simp add: dict_values_def PROMOTION_EVENT_MAP_items)

lemma map_of_distinct_values:
  assumes "distinct (map snd xs)" and "map_of xs k1 = Some v" and "map_of xs k2 = Some v"
  shows "k1 = k2"
proof -
  have "(k1, v) \<in> set xs" and "(k2, v) \<in> set xs"
    using assms(2,3) by (auto dest: map_of_SomeD)
  moreover have "inj_on snd (set xs)"
    using assms(1) by (simp add: distinct_map)
  ultimately have "(k1, v) = (k2, v)"
    by (intro inj_onD [of snd "set xs"]) simp_all
  then show ?thesis by simp
qed

lemma run_returns: "run (returns v) = (Inr v, [])"
  by (simp add: resolution_defs)


lemma requesterless_returns_None:
  "get_user_or_app_from_context ctx = None \<Longrightarrow> resolve_created_by root ctx = returns None"
  by (simp add: resolve_created_by_def)


lemma request_of_requester:
  "get_user_or_app_from_context (request_of req) = req"
  by (simp add: get_user_or_app_from_context_def request_of_def)

lemma run_load_channels:
  "run (ChannelsByPromotionRuleIdLoader_load ctx key) =
     (Inr (channels_by_rule_id ctx key), [ChannelsByPromotionRuleIdLoader key])"
  by (simp add: resolution_defs ChannelsByPromotionRuleIdLoader_load_def)

lemma run_load_rules:
  "run (PromotionRulesByPromotionIdLoader_load ctx key) =
     (Inr (rules_by_promotion_id ctx key), [PromotionRulesByPromotionIdLoader key])"
  by (simp add: resolution_defs PromotionRulesByPromotionIdLoader_load_def)

lemma run_load_events:
  "run (PromotionEventsByPromotionIdLoader_load ctx key) =
     (Inr (events_by_promotion_id ctx key), [PromotionEventsByPromotionIdLoader key])"
  by (simp add: resolution_defs PromotionEventsByPromotionIdLoader_load_def)

lemma run_raises: "run (raises e) = (Inl e, [])"
  by (simp add: resolution_defs)

lemma meets_channels_permissions:
  "list_ex (meets req) PromotionRule_channels_permissions \<longleftrightarrow>
     (\<exists>a. req = Some (App a)) \<or> (\<exists>u. req = Some (User u) \<and> is_staff u)"
proof (cases req)
  case None
  then show ?thesis by (simp add: PromotionRule_channels_permissions_def)
next
  case (Some r)
  then show ?thesis
    by (cases r) (simp_all add: PromotionRule_channels_permissions_def)
qed

lemma run_load_app_then_resolve_app:
  "run (promise_then (AppByIdLoader_load ctx aid) (resolve_app req)) =
     (if is_owner_or_has_one_of_perms req (map_option App (apps_by_id ctx aid)) [MANAGE_APPS]
      then Inr (map_option App (apps_by_id ctx aid)) else Inl PermissionDenied,
      [AppByIdLoader aid,
       CheckOwnerOrPerms req (map_option App (apps_by_id ctx aid)) [MANAGE_APPS]])"
  by (simp add: resolution_defs AppByIdLoader_load_def resolve_app_def
      check_is_owner_or_has_one_of_perms_def)

lemma meets_created_by_permissions:
  "list_ex (meets (Some req)) PromotionEvent_created_by_permissions \<longleftrightarrow>
     has_perm req MANAGE_STAFF \<or> has_perm req MANAGE_APPS"
  by (cases req) (simp_all add: PromotionEvent_created_by_permissions_def)

lemma gate_denies_without_requester:
  "get_user_or_app_from_context ctx = None \<Longrightarrow>
     run (PromotionEvent_created_by root ctx) = (Inl PermissionDenied, [])"
  by (simp add: PromotionEvent_created_by_def PermissionsField_def run_raises
      PromotionEvent_created_by_permissions_def)

lemma gate_with_requester:
  "get_user_or_app_from_context ctx = Some req \<Longrightarrow>
     run (PromotionEvent_created_by root ctx) =
       (if has_perm req MANAGE_STAFF \<or> has_perm req MANAGE_APPS
        then run (resolve_created_by root ctx) else (Inl PermissionDenied, []))"
  by (simp add: PromotionEvent_created_by_def PermissionsField_def run_raises
      meets_created_by_permissions)

lemma app_branch_taken:
  assumes "get_user_or_app_from_context ctx = Some req"
    and "truthy_key (user_id root) = None" and "truthy_key (app_id root) = Some aid"
  shows "resolve_created_by root ctx =
           promise_then (AppByIdLoader_load ctx aid) (resolve_app req)"
  using assms by (simp add: resolve_created_by_def)

lemma no_branch_taken:
  assumes "truthy_key (user_id root) = None" and "truthy_key (app_id root) = None"
  shows "resolve_created_by root ctx = returns None"
  using assms by (simp add: resolve_created_by_def split: option.split)


subsection \<open>Event kinds and variants\<close>

text \<open>
  C1. For every event, the type resolution of the interface
  (\<^verbatim>\<open>PromotionEvent.resolve_type\<close>) and that of the union
  (\<^verbatim>\<open>UnionPromotionEvent.resolve_type\<close>) return the same result, whatever the
  kind of the event and whatever the \<^verbatim>\<open>info\<close> each is called with: both look the
  kind up in \<open>PROMOTION_EVENT_MAP\<close>.
\<close>

theorem resolve_type_interface_union_agree:
  "PromotionEvent_resolve_type instance info = UnionPromotionEvent_resolve_type instance info'"
  by (simp add: PromotionEvent_resolve_type_def UnionPromotionEvent_resolve_type_def)

text \<open>
  C2. For an event whose kind is none of the seven declared kinds, both resolutions
  return no match (\<^verbatim>\<open>None\<close>). The result is a value: a lookup with
  \<^verbatim>\<open>dict.get\<close> has no raising branch.
\<close>

theorem resolve_type_unknown_kind:
  assumes "event_type instance \<notin> {PROMOTION_CREATED, PROMOTION_UPDATED, PROMOTION_STARTED,
     PROMOTION_ENDED, RULE_CREATED, RULE_UPDATED, RULE_DELETED}"
  shows "PromotionEvent_resolve_type instance info = None
       \<and> UnionPromotionEvent_resolve_type instance info = None"
  using assms
  by (simp add: PromotionEvent_resolve_type_def UnionPromotionEvent_resolve_type_def
      dict_get_def PROMOTION_EVENT_MAP_items)

theorem resolve_type_unknown_kind_witness:
  "PromotionEvent_resolve_type ((event_by None None)\<lparr>event_type := ''voucher_created''\<rparr>)
     (request_of None) = None
 \<and> UnionPromotionEvent_resolve_type ((event_by None None)\<lparr>event_type := ''voucher_created''\<rparr>)
     (request_of None) = None"
proof -
  have "event_type ((event_by None None)\<lparr>event_type := ''voucher_created''\<rparr>)
      \<notin> {PROMOTION_CREATED, PROMOTION_UPDATED, PROMOTION_STARTED,
          PROMOTION_ENDED, RULE_CREATED, RULE_UPDATED, RULE_DELETED}"
    by (simp add: kind_defs)
  then show ?thesis
    by (rule resolve_type_unknown_kind)
qed

text \<open>
  C3. The lookup is defined on the seven declared kinds: the table has exactly seven
  entries, each declared kind is mapped to its own variant, and two different declared
  kinds are mapped to different variants.
\<close>

theorem event_map_total_and_injective:
  "length PROMOTION_EVENT_MAP = 7
 \<and> map fst PROMOTION_EVENT_MAP =
     [PROMOTION_CREATED, PROMOTION_UPDATED, PROMOTION_STARTED, PROMOTION_ENDED,
      RULE_CREATED, RULE_UPDATED, RULE_DELETED]
 \<and> dict_get PROMOTION_EVENT_MAP PROMOTION_CREATED = Some PromotionCreatedEvent
 \<and> dict_get PROMOTION_EVENT_MAP PROMOTION_UPDATED = Some PromotionUpdatedEvent
 \<and> dict_get PROMOTION_EVENT_MAP PROMOTION_STARTED = Some PromotionStartedEvent
 \<and> dict_get PROMOTION_EVENT_MAP PROMOTION_ENDED = Some PromotionEndedEvent
 \<and> dict_get PROMOTION_EVENT_MAP RULE_CREATED = Some PromotionRuleCreatedEvent
 \<and> dict_get PROMOTION_EVENT_MAP RULE_UPDATED = Some PromotionRuleUpdatedEvent
 \<and> dict_get PROMOTION_EVENT_MAP RULE_DELETED = Some PromotionRuleDeletedEvent
 \<and> (\<forall>k1\<in>set (map fst PROMOTION_EVENT_MAP). \<forall>k2\<in>set (map fst PROMOTION_EVENT_MAP).
       k1 \<noteq> k2 \<longrightarrow> dict_get PROMOTION_EVENT_MAP k1 \<noteq> dict_get PROMOTION_EVENT_MAP k2)"
proof -
  have lookups: "length PROMOTION_EVENT_MAP = 7
     \<and> map fst PROMOTION_EVENT_MAP =
         [PROMOTION_CREATED, PROMOTION_UPDATED, PROMOTION_STARTED, PROMOTION_ENDED,
          RULE_CREATED, RULE_UPDATED, RULE_DELETED]
     \<and> dict_get PROMOTION_EVENT_MAP PROMOTION_CREATED = Some PromotionCreatedEvent
     \<and> dict_get PROMOTION_EVENT_MAP PROMOTION_UPDATED = Some PromotionUpdatedEvent
     \<and> dict_get PROMOTION_EVENT_MAP PROMOTION_STARTED = Some PromotionStartedEvent
     \<and> dict_get PROMOTION_EVENT_MAP PROMOTION_ENDED = Some PromotionEndedEvent
     \<and> dict_get PROMOTION_EVENT_MAP RULE_CREATED = Some PromotionRuleCreatedEvent
     \<and> dict_get PROMOTION_EVENT_MAP RULE_UPDATED = Some PromotionRuleUpdatedEvent
     \<and> dict_get PROMOTION_EVENT_MAP RULE_DELETED = Some PromotionRuleDeletedEvent"
    by (simp add: dict_get_def PROMOTION_EVENT_MAP_items) (simp add: kind_defs)
  have "dict_get PROMOTION_EVENT_MAP k1 \<noteq> dict_get PROMOTION_EVENT_MAP k2"
    if k1: "k1 \<in> set (map fst PROMOTION_EVENT_MAP)" and ne: "k1 \<noteq> k2" for k1 k2
  proof
    assume eq: "dict_get PROMOTION_EVENT_MAP k1 = dict_get PROMOTION_EVENT_MAP k2"
    from k1 obtain v where v1: "map_of PROMOTION_EVENT_MAP k1 = Some v"
      by (metis map_of_eq_None_iff not_Some_eq set_map)
    with eq have v2: "map_of PROMOTION_EVENT_MAP k2 = Some v"
      by (simp add: dict_get_def)
    have "distinct (map snd PROMOTION_EVENT_MAP)"
      using values_distinct by (simp add: dict_values_def)
    then have "k1 = k2"
      using v1 v2 by (rule map_of_distinct_values)
    with ne show False by simp
  qed
  with lookups show ?thesis
    by blast
qed

theorem event_map_total_and_injective_witness:
  "PROMOTION_CREATED \<in> set (map fst PROMOTION_EVENT_MAP)
 \<and> RULE_DELETED \<in> set (map fst PROMOTION_EVENT_MAP)
 \<and> PROMOTION_CREATED \<noteq> RULE_DELETED
 \<and> dict_get PROMOTION_EVENT_MAP PROMOTION_CREATED = Some PromotionCreatedEvent
 \<and> dict_get PROMOTION_EVENT_MAP RULE_DELETED = Some PromotionRuleDeletedEvent
 \<and> dict_get PROMOTION_EVENT_MAP PROMOTION_CREATED \<noteq> dict_get PROMOTION_EVENT_MAP RULE_DELETED"
proof -
  have keys: "PROMOTION_CREATED \<in> set (map fst PROMOTION_EVENT_MAP)"
    "RULE_DELETED \<in> set (map fst PROMOTION_EVENT_MAP)"
    by (simp_all add: PROMOTION_EVENT_MAP_items)
  have ne: "PROMOTION_CREATED \<noteq> RULE_DELETED"
    by (simp add: kind_defs)
  from event_map_total_and_injective keys ne show ?thesis
    by blast
qed

subsection \<open>The principal of an event\<close>




text \<open>
  C5. When the request has no requester, \<^verbatim>\<open>resolve_created_by\<close> returns
  \<^verbatim>\<open>None\<close> at once, for every event (also one with \<^verbatim>\<open>user_id\<close> or
  \<^verbatim>\<open>app_id\<close> set): no loader and no ownership or permission check is called.
\<close>

theorem created_by_no_requester:
  assumes "get_user_or_app_from_context ctx = None"
  shows "outcome (resolve_created_by root ctx) = Inr None
       \<and> calls_made (resolve_created_by root ctx) = []"
  using assms
  by (simp add: requesterless_returns_None outcome_def calls_made_def run_returns)

text \<open>A request without requester, for an event that has both keys set.\<close>

theorem created_by_no_requester_witness:
  "get_user_or_app_from_context (request_of None) = None
 \<and> truthy_key (user_id (event_by (Some 1) (Some 7))) = Some 1
 \<and> truthy_key (app_id (event_by (Some 1) (Some 7))) = Some 7
 \<and> outcome (resolve_created_by (event_by (Some 1) (Some 7)) (request_of None)) = Inr None
 \<and> calls_made (resolve_created_by (event_by (Some 1) (Some 7)) (request_of None)) = []"
  using created_by_no_requester [of "request_of None" "event_by (Some 1) (Some 7)"]
  by (simp add: request_of_requester event_by_def)

text \<open>
  C6, as amended. For an event with neither \<^verbatim>\<open>user_id\<close> nor \<^verbatim>\<open>app_id\<close>, the
  method \<^verbatim>\<open>resolve_created_by\<close> returns \<^verbatim>\<open>None\<close> for every request, and no
  loader or ownership check is called; resolving the field \<^verbatim>\<open>created_by\<close> gives
  \<^verbatim>\<open>None\<close> to a requester holding \<open>MANAGE_STAFF\<close> or \<open>MANAGE_APPS\<close>, and a denial
  to every other request (no requester, or one holding neither permission): the
  permission requirement of the field is enforced before the method runs.
\<close>

theorem created_by_field_no_principal:
  assumes "user_id root = None" and "app_id root = None"
  shows "outcome (resolve_created_by root ctx) = Inr None
       \<and> calls_made (resolve_created_by root ctx) = []
       \<and> calls_made (PromotionEvent_created_by root ctx) = []
       \<and> (get_user_or_app_from_context ctx = None \<longrightarrow>
            outcome (PromotionEvent_created_by root ctx) = Inl PermissionDenied)
       \<and> (\<forall>req. get_user_or_app_from_context ctx = Some req \<longrightarrow>
            outcome (PromotionEvent_created_by root ctx) =
              (if has_perm req MANAGE_STAFF \<or> has_perm req MANAGE_APPS
               then Inr None else Inl PermissionDenied))"
proof -
  have res: "run (resolve_created_by root ctx) = (Inr None, [])"
    using assms by (simp add: no_branch_taken run_returns)
  have "run (PromotionEvent_created_by root ctx) = (Inl PermissionDenied, [])"
    if "get_user_or_app_from_context ctx = None"
    using that by (rule gate_denies_without_requester)
  moreover have "run (PromotionEvent_created_by root ctx) =
      (if has_perm req MANAGE_STAFF \<or> has_perm req MANAGE_APPS
       then Inr None else Inl PermissionDenied, [])"
    if "get_user_or_app_from_context ctx = Some req" for req
    using that by (simp add: gate_with_requester res)
  ultimately show ?thesis
    using res by (cases "get_user_or_app_from_context ctx") (simp_all add: outcome_def calls_made_def)
qed

text \<open>
  A holder of \<open>MANAGE_STAFF\<close>, an app holding \<open>MANAGE_APPS\<close>, a staff member holding
  neither, and no requester.
\<close>

theorem created_by_field_no_principal_witness:
  "outcome (PromotionEvent_created_by (event_by None None) (request_of (Some (User bob))))
     = Inr None
 \<and> outcome (PromotionEvent_created_by (event_by None None) (request_of (Some (App dashboard_app))))
     = Inr None
 \<and> calls_made (PromotionEvent_created_by (event_by None None) (request_of (Some (User bob)))) = []
 \<and> outcome (resolve_created_by (event_by None None) (request_of (Some (User carol)))) = Inr None
 \<and> outcome (PromotionEvent_created_by (event_by None None) (request_of None))
     = Inl PermissionDenied"
proof -
  have ev: "user_id (event_by None None) = None" "app_id (event_by None None) = None"
    by (simp_all add: event_by_def)
  show ?thesis
    using created_by_field_no_principal [OF ev, of "request_of (Some (User bob))"]
      created_by_field_no_principal [OF ev, of "request_of (Some (App dashboard_app))"]
      created_by_field_no_principal [OF ev, of "request_of (Some (User carol))"]
      created_by_field_no_principal [OF ev, of "request_of None"]
    by (simp add: request_of_requester) (simp add: bob_def dashboard_app_def)
qed

text \<open>
  C6 as first stated promises \<^verbatim>\<open>None\<close> to every requester, with no error. A staff
  member holding neither \<open>MANAGE_STAFF\<close> nor \<open>MANAGE_APPS\<close> is denied.
\<close>

theorem created_by_field_no_principal_counterexample:
  "user_id (event_by None None) = None
 \<and> app_id (event_by None None) = None
 \<and> get_user_or_app_from_context (request_of (Some (User carol))) = Some (User carol)
 \<and> outcome (PromotionEvent_created_by (event_by None None) (request_of (Some (User carol))))
     = Inl PermissionDenied
 \<and> outcome (PromotionEvent_created_by (event_by None None) (request_of (Some (User carol))))
     \<noteq> Inr None"
  by (simp add: PromotionEvent_created_by_def PermissionsField_def
      PromotionEvent_created_by_permissions_def get_user_or_app_from_context_def
      request_of_def event_by_def carol_def resolution_defs)




subsection \<open>The rule of a rule event\<close>

text \<open>
  C8. The variants that expose \<^verbatim>\<open>rule_id\<close> (those with the interface
  \<^verbatim>\<open>PromotionRuleEvent\<close>) are the three rule variants, and for every event
  \<^verbatim>\<open>resolve_rule_id\<close> returns the value stored under the key \<^verbatim>\<open>"rule_id"\<close>
  of its parameters, and null when the parameters have no such key. It has no raising
  branch.
\<close>

theorem rule_id_from_parameters:
  "filter (\<lambda>v. PromotionRuleEvent \<in> set (interfaces v)) (dict_values PROMOTION_EVENT_MAP) =
     [PromotionRuleCreatedEvent, PromotionRuleUpdatedEvent, PromotionRuleDeletedEvent]
 \<and> (\<forall>v. parameters root ''rule_id'' = Some v \<longrightarrow> resolve_rule_id root info = v)
 \<and> (''rule_id'' \<notin> dom (parameters root) \<longrightarrow> resolve_rule_id root info = JNull)"
  by (auto simp add: resolve_rule_id_def dict_values_def PROMOTION_EVENT_MAP_items domIff)

text \<open>An event with a rule id in its parameters, and the same event with empty parameters.\<close>

theorem rule_id_from_parameters_witness:
  "parameters (event_by None None) ''rule_id'' = Some (JStr ''UHJvbW90aW9uUnVsZToyMQ=='')
 \<and> resolve_rule_id (event_by None None) (request_of None) = JStr ''UHJvbW90aW9uUnVsZToyMQ==''
 \<and> ''rule_id'' \<notin> dom (parameters ((event_by None None)\<lparr>parameters := Map.empty\<rparr>))
 \<and> resolve_rule_id ((event_by None None)\<lparr>parameters := Map.empty\<rparr>) (request_of None) = JNull"
  using rule_id_from_parameters [of "event_by None None" "request_of None"]
    rule_id_from_parameters [of "(event_by None None)\<lparr>parameters := Map.empty\<rparr>" "request_of None"]
  by (simp add: event_by_def)

subsection \<open>The channels of a rule\<close>

text \<open>
  C9. The \<^verbatim>\<open>channels\<close> field of \<^verbatim>\<open>PromotionRule\<close> declares exactly the two
  requirements \<open>AUTHENTICATED_APP\<close> and \<open>AUTHENTICATED_STAFF_USER\<close>. For a requester
  that is an app or a staff user the field resolves to the channels the loader gives
  for the id of the rule, all of them and in the loader's order; for any other request
  (no requester, or a user who is not staff) the outcome is a denial and the loader is
  not called.
\<close>

theorem channels_field_gated:
  "set PromotionRule_channels_permissions = {AUTHENTICATED_APP, AUTHENTICATED_STAFF_USER}
 \<and> ((\<exists>a. get_user_or_app_from_context ctx = Some (App a))
      \<or> (\<exists>u. get_user_or_app_from_context ctx = Some (User u) \<and> is_staff u)
    \<longrightarrow> outcome (PromotionRule_channels root ctx) = Inr (channels_by_rule_id ctx (rule_pk root))
      \<and> calls_made (PromotionRule_channels root ctx) = [ChannelsByPromotionRuleIdLoader (rule_pk root)])
 \<and> (\<not> ((\<exists>a. get_user_or_app_from_context ctx = Some (App a))
      \<or> (\<exists>u. get_user_or_app_from_context ctx = Some (User u) \<and> is_staff u))
    \<longrightarrow> outcome (PromotionRule_channels root ctx) = Inl PermissionDenied
      \<and> calls_made (PromotionRule_channels root ctx) = [])"
proof -
  have "set PromotionRule_channels_permissions = {AUTHENTICATED_APP, AUTHENTICATED_STAFF_USER}"
    by (simp add: PromotionRule_channels_permissions_def)
  moreover have "run (PromotionRule_channels root ctx) =
      (if (\<exists>a. get_user_or_app_from_context ctx = Some (App a))
          \<or> (\<exists>u. get_user_or_app_from_context ctx = Some (User u) \<and> is_staff u)
       then (Inr (channels_by_rule_id ctx (rule_pk root)),
             [ChannelsByPromotionRuleIdLoader (rule_pk root)])
       else (Inl PermissionDenied, []))"
    by (simp add: PromotionRule_channels_def PermissionsField_def meets_channels_permissions
        PromotionRule_resolve_channels_def run_load_channels run_raises)
  ultimately show ?thesis
    by (simp add: outcome_def calls_made_def)
qed

text \<open>An app, a staff user, a customer and an anonymous request, on a rule with two channels.\<close>

theorem channels_field_gated_witness:
  "outcome (PromotionRule_channels rule_a (request_of (Some (App dashboard_app))))
     = Inr [Channel 2, Channel 1]
 \<and> outcome (PromotionRule_channels rule_a (request_of (Some (User carol))))
     = Inr [Channel 2, Channel 1]
 \<and> outcome (PromotionRule_channels rule_a (request_of (Some (User alice))))
     = Inl PermissionDenied
 \<and> outcome (PromotionRule_channels rule_a (request_of None)) = Inl PermissionDenied"
  using channels_field_gated [of "request_of (Some (App dashboard_app))" rule_a]
    channels_field_gated [of "request_of (Some (User carol))" rule_a]
    channels_field_gated [of "request_of (Some (User alice))" rule_a]
    channels_field_gated [of "request_of None" rule_a]
  by (simp add: request_of_requester)
     (simp add: request_of_def rule_a_def alice_def carol_def)

subsection \<open>The rules and events of a promotion\<close>

text \<open>
  C10. For a promotion for whose id the loaders give \<open>N\<close> rules and \<open>M\<close> events,
  \<^verbatim>\<open>resolve_rules\<close> yields exactly these \<open>N\<close> rules and \<^verbatim>\<open>resolve_events\<close>
  exactly these \<open>M\<close> events, each list as the loader returned it, and each resolver
  calls its loader once, with the id of the promotion, and nothing else.
\<close>

theorem promotion_rules_events_as_loaded:
  assumes "length (rules_by_promotion_id ctx (promotion_pk root)) = N"
      and "length (events_by_promotion_id ctx (promotion_pk root)) = M"
  shows "\<exists>rules events.
           outcome (Promotion_resolve_rules root ctx) = Inr rules
         \<and> outcome (Promotion_resolve_events root ctx) = Inr events
         \<and> length rules = N \<and> length events = M
         \<and> rules = rules_by_promotion_id ctx (promotion_pk root)
         \<and> events = events_by_promotion_id ctx (promotion_pk root)
         \<and> calls_made (Promotion_resolve_rules root ctx)
             = [PromotionRulesByPromotionIdLoader (promotion_pk root)]
         \<and> calls_made (Promotion_resolve_events root ctx)
             = [PromotionEventsByPromotionIdLoader (promotion_pk root)]"
  using assms
  by (simp add: Promotion_resolve_rules_def Promotion_resolve_events_def outcome_def
      calls_made_def run_load_rules run_load_events)

text \<open>The promotion of the example request has two rules and three events.\<close>

theorem promotion_rules_events_as_loaded_witness:
  "outcome (Promotion_resolve_rules summer_sale (request_of None)) = Inr [rule_a, rule_b]
 \<and> outcome (Promotion_resolve_events summer_sale (request_of None))
     = Inr [event_by (Some 2) None, event_by None (Some 7), event_by None None]"
proof -
  have "length (rules_by_promotion_id (request_of None) (promotion_pk summer_sale)) = 2"
    and "length (events_by_promotion_id (request_of None) (promotion_pk summer_sale)) = 3"
    by (simp_all add: request_of_def summer_sale_def)
  from promotion_rules_events_as_loaded [OF this] show ?thesis
    by (simp add: request_of_def summer_sale_def)
qed

end
